theory Spec2Isabelle
  imports Complex_Main
begin

section \<open>The impact scorer of \<open>nuclear.py\<close>\<close>

text \<open>
  \<open>predict_dinosaur_impact\<close> (nuclear.py, lines 27 to 199) is embedded below, statement by
  statement. The two numeric arguments are finite floats, read as real numbers. A float
  computed by the function is a real number, an infinity or a NaN: the binary rounding
  of a result within the double range is not modelled, but leaving the range is. The
  power and the products of the mass formula (lines 43 to 73) are the operations that
  can leave it: a power above the largest double raises \<open>OverflowError\<close>, and a
  product above it is infinite. A negative base under a fractional exponent gives a complex
  number, and the comparison \<open>base_mass > 50000\<close> of line 76 then raises \<open>TypeError\<close>; a
  float division by zero raises \<open>ZeroDivisionError\<close>.
\<close>

subsection \<open>Python primitives\<close>

datatype error = TypeError | ZeroDivisionError | OverflowError

text \<open>The largest double and the smallest positive double.\<close>

definition float_max :: real where
  "float_max = (2 - 1 / 2 ^ 52) * 2 ^ 1023"


text \<open>
  The values a float variable of the function can hold, and the values of an arithmetic
  expression, which may also be complex. All floats of the function are non-negative, so
  one infinity is enough.
\<close>

datatype pyfloat = Float real | Infinity | NaN

datatype pynum = Real pyfloat | Complex

text \<open>A non-negative real result as a float: infinite above the largest double.\<close>

definition py_float :: "real \<Rightarrow> pyfloat" where
  "py_float x = (if float_max < x then Infinity else Float x)"

text \<open>
  \<open>x ** y\<close> for a finite float \<open>x\<close> and a positive fractional \<open>y\<close>. A negative base
  takes the complex power, whose modulus is the power of the absolute value; either
  power raises \<open>OverflowError\<close> when it leaves the double range.
\<close>

definition py_pow :: "real \<Rightarrow> real \<Rightarrow> error + pynum" where
  "py_pow x y =
     (if float_max < \<bar>x\<bar> powr y then Inl OverflowError
      else if x < 0 then Inr Complex
      else Inr (Real (Float (x powr y))))"

text \<open>
  The product of two non-negative floats overflows to infinity without raising, and
  \<open>inf * 0.0\<close> is NaN; a product with a complex factor is complex.
\<close>

fun float_mult :: "pyfloat \<Rightarrow> pyfloat \<Rightarrow> pyfloat" where
  "float_mult (Float a) (Float b) = py_float (a * b)"
| "float_mult Infinity (Float b) = (if b = 0 then NaN else Infinity)"
| "float_mult (Float a) Infinity = (if a = 0 then NaN else Infinity)"
| "float_mult Infinity Infinity = Infinity"
| "float_mult NaN y = NaN"
| "float_mult x NaN = NaN"

fun py_mult :: "pynum \<Rightarrow> pynum \<Rightarrow> pynum" where
  "py_mult (Real a) (Real b) = Real (float_mult a b)"
| "py_mult x y = Complex"

text \<open>\<open>a / b\<close> for finite floats.\<close>

definition py_div :: "real \<Rightarrow> real \<Rightarrow> error + real" where
  "py_div a b = (if b = 0 then Inl ZeroDivisionError else Inr (a / b))"

text \<open>\<open>d.get(k, default)\<close> on a dictionary.\<close>

definition dict_get :: "('k \<rightharpoonup> 'v) \<Rightarrow> 'k \<Rightarrow> 'v \<Rightarrow> 'v" where
  "dict_get m k dflt = (case m k of None \<Rightarrow> dflt | Some v \<Rightarrow> v)"

text \<open>
  \<open>round(x, n)\<close>: the nearest multiple of \<open>10 ** -n\<close>, a tie going to the even one.
\<close>

definition round_half_even :: "real \<Rightarrow> int" where
  "round_half_even x =
     (let f = \<lfloor>x\<rfloor>; d = x - of_int f
      in if d < 1 / 2 then f
         else if 1 / 2 < d then f + 1
         else if even f then f else f + 1)"

definition py_round :: "real \<Rightarrow> nat \<Rightarrow> real" where
  "py_round x n = of_int (round_half_even (x * 10 ^ n)) / 10 ^ n"

subsection \<open>Step 1: mass estimation (lines 38 to 85)\<close>

text \<open>
  Lines 38 to 73 over the reals: the allometric formula of each body type, in the order
  of the source. This is the value of \<open>base_mass\<close> whenever every operation stays within
  the double range.
\<close>

definition base_mass :: "string \<Rightarrow> real \<Rightarrow> real \<Rightarrow> real" where
  "base_mass dino_type length_m height_m =
     (let estimated_femur_circ = length_m * 0.08
      in if dino_type = ''sauropod'' then
           (let m = 2.4 * (estimated_femur_circ powr 2.6) * (height_m powr 0.4) * 1000
            in if length_m > 25 then m * 1.3
               else if length_m > 20 then m * 1.1
               else m)
         else if dino_type = ''large theropod'' then
           3.2 * (estimated_femur_circ powr 2.7) * (height_m powr 0.6) * 1000
         else if dino_type = ''small theropod'' then
           1.8 * (estimated_femur_circ powr 2.5) * (height_m powr 0.5) * 1000
         else if dino_type = ''ceratopsian'' then
           2.8 * (estimated_femur_circ powr 2.6) * (height_m powr 0.55) * 1000
         else if dino_type = ''armoured dinosaur'' then
           3.0 * (estimated_femur_circ powr 2.65) * (height_m powr 0.5) * 1000
         else if dino_type = ''euornithopod'' then
           2.2 * (estimated_femur_circ powr 2.55) * (height_m powr 0.5) * 1000
         else
           2.5 * (estimated_femur_circ powr 2.6) * (height_m powr 0.5) * 1000)"

text \<open>Lines 76 to 79: the square-cube compression.\<close>

definition square_cube :: "real \<Rightarrow> real" where
  "square_cube m =
     (if m > 50000 then 50000 + (m - 50000) * 0.3
      else if m > 30000 then 30000 + (m - 30000) * 0.6
      else m)"

text \<open>Lines 82 and 83: the floor.\<close>

definition min_mass :: "real \<Rightarrow> real" where
  "min_mass m = (if m < 50 then 50 else m)"

definition estimated_mass_kg :: "string \<Rightarrow> real \<Rightarrow> real \<Rightarrow> real" where
  "estimated_mass_kg dino_type length_m height_m =
     min_mass (square_cube (base_mass dino_type length_m height_m))"

text \<open>
  The same lines as Python evaluates them. In \<open>k * (femur ** a) * (height_m ** b) * 1000\<close>
  the first power is taken first, then the product with \<open>k\<close>, then the second power, then
  the two remaining products.
\<close>

definition allometric_float :: "real \<Rightarrow> real \<Rightarrow> real \<Rightarrow> real \<Rightarrow> real \<Rightarrow> error + pynum" where
  "allometric_float k femur a height_m b =
     (case py_pow femur a of
        Inl e \<Rightarrow> Inl e
      | Inr x \<Rightarrow>
          (case py_pow height_m b of
             Inl e \<Rightarrow> Inl e
           | Inr y \<Rightarrow>
               Inr (py_mult (py_mult (py_mult (Real (Float k)) x) y) (Real (Float 1000)))))"

definition base_mass_float :: "string \<Rightarrow> real \<Rightarrow> real \<Rightarrow> error + pynum" where
  "base_mass_float dino_type length_m height_m =
     (let estimated_femur_circ = length_m * 0.08
      in if dino_type = ''sauropod'' then
           (case allometric_float 2.4 estimated_femur_circ 2.6 height_m 0.4 of
              Inl e \<Rightarrow> Inl e
            | Inr m \<Rightarrow>
                Inr (if length_m > 25 then py_mult m (Real (Float 1.3))
                     else if length_m > 20 then py_mult m (Real (Float 1.1))
                     else m))
         else if dino_type = ''large theropod'' then
           allometric_float 3.2 estimated_femur_circ 2.7 height_m 0.6
         else if dino_type = ''small theropod'' then
           allometric_float 1.8 estimated_femur_circ 2.5 height_m 0.5
         else if dino_type = ''ceratopsian'' then
           allometric_float 2.8 estimated_femur_circ 2.6 height_m 0.55
         else if dino_type = ''armoured dinosaur'' then
           allometric_float 3.0 estimated_femur_circ 2.65 height_m 0.5
         else if dino_type = ''euornithopod'' then
           allometric_float 2.2 estimated_femur_circ 2.55 height_m 0.5
         else
           allometric_float 2.5 estimated_femur_circ 2.6 height_m 0.5)"

text \<open>
  Lines 76 to 83 on that value. Comparing a complex number raises \<open>TypeError\<close>. An
  infinite mass is above 50000 and \<open>50000 + (inf - 50000) * 0.3\<close> is infinite. Every
  comparison with NaN is false, so NaN passes unchanged. A finite mass stays finite.
\<close>

definition mass_constraints :: "pynum \<Rightarrow> error + pyfloat" where
  "mass_constraints b =
     (case b of
        Complex \<Rightarrow> Inl TypeError
      | Real (Float m) \<Rightarrow> Inr (Float (min_mass (square_cube m)))
      | Real Infinity \<Rightarrow> Inr Infinity
      | Real NaN \<Rightarrow> Inr NaN)"

definition estimated_mass_kg_float :: "string \<Rightarrow> real \<Rightarrow> real \<Rightarrow> error + pyfloat" where
  "estimated_mass_kg_float dino_type length_m height_m =
     (case base_mass_float dino_type length_m height_m of
        Inl e \<Rightarrow> Inl e
      | Inr b \<Rightarrow> mass_constraints b)"

subsection \<open>Steps 2 to 6: the ecological factors (lines 89 to 158)\<close>

text \<open>
  From line 89 on, a finite mass is at least 50 and at most the largest double, and the
  powers below 1, the products with small constants and the quotients of these lines
  stay within the double range: they are written over the reals. The infinite mass and
  the NaN are carried through with the values Python gives them.
\<close>

definition diet_metabolic_factors :: "string \<rightharpoonup> real" where
  "diet_metabolic_factors =
     [''carnivorous'' \<mapsto> 2.8, ''herbivorous'' \<mapsto> 1.0, ''omnivorous'' \<mapsto> 1.8,
      ''unknown'' \<mapsto> 1.5]"

definition metabolic_demand :: "real \<Rightarrow> string \<Rightarrow> real" where
  "metabolic_demand mass diet =
     (let basal_metabolic_rate = mass powr 0.75
      in basal_metabolic_rate * dict_get diet_metabolic_factors diet 1.5)"

definition home_range_factor :: "real \<Rightarrow> string \<Rightarrow> real" where
  "home_range_factor mass diet =
     (if diet = ''carnivorous'' then mass powr 0.75 * 0.02
      else if diet = ''herbivorous'' then mass powr 0.65 * 0.008
      else mass powr 0.7 * 0.015)"

definition competition_intensity :: "string \<Rightarrow> real" where
  "competition_intensity diet =
     (if diet = ''carnivorous'' then 3.5
      else if diet = ''herbivorous'' then 1.8
      else 2.5)"

text \<open>
  Lines 120 to 129. An infinite mass is above 20000 and \<open>2000 / (inf ** 0.6)\<close> is \<open>0.0\<close>;
  for NaN every comparison is false and \<open>6000 / (nan ** 0.6)\<close> is NaN.
\<close>

definition carrying_capacity :: "pyfloat \<Rightarrow> error + pyfloat" where
  "carrying_capacity mass =
     (case mass of
        Float m \<Rightarrow>
          (case (if m > 20000 then py_div 2000 (m powr 0.6)
                 else if m > 10000 then py_div 3000 (m powr 0.6)
                 else if m > 5000 then py_div 4000 (m powr 0.6)
                 else if m > 1000 then py_div 5000 (m powr 0.6)
                 else py_div 6000 (m powr 0.6)) of
             Inl e \<Rightarrow> Inl e
           | Inr c \<Rightarrow> Inr (Float c))
      | Infinity \<Rightarrow> Inr (Float 0)
      | NaN \<Rightarrow> Inr NaN)"

definition niche_breadth :: "string \<Rightarrow> real" where
  "niche_breadth dino_type =
     (if dino_type = ''sauropod'' then 2.8
      else if dino_type = ''large theropod'' then 3.5
      else if dino_type = ''ceratopsian'' then 2.2
      else if dino_type = ''armoured dinosaur'' then 1.8
      else if dino_type = ''euornithopod'' then 2.4
      else 2.0)"

definition period_factors :: "string \<rightharpoonup> real" where
  "period_factors =
     [''Late Triassic'' \<mapsto> 1.2, ''Early Jurassic'' \<mapsto> 1.1, ''Mid Jurassic'' \<mapsto> 1.0,
      ''Late Jurassic'' \<mapsto> 0.9, ''Early Cretaceous'' \<mapsto> 0.95, ''Late Cretaceous'' \<mapsto> 0.85]"

definition ecological_context :: "string \<Rightarrow> real" where
  "ecological_context geological_period = dict_get period_factors geological_period 1.0"

subsection \<open>Step 7: the four sub-indices and the score (lines 164 to 179)\<close>

text \<open>
  \<open>min(c, x)\<close> returns \<open>c\<close> unless \<open>x < c\<close>: it is \<open>c\<close> for an infinite \<open>x\<close> and for NaN.
\<close>

definition resource_index :: "pyfloat \<Rightarrow> string \<Rightarrow> string \<Rightarrow> real" where
  "resource_index mass diet geological_period =
     (case mass of
        Float m \<Rightarrow>
          min 30 ((metabolic_demand m diet / 10000) * ecological_context geological_period)
      | Infinity \<Rightarrow> 30
      | NaN \<Rightarrow> 30)"

definition habitat_index :: "pyfloat \<Rightarrow> string \<Rightarrow> string \<Rightarrow> real" where
  "habitat_index mass diet dino_type =
     (case mass of
        Float m \<Rightarrow> min 25 ((home_range_factor m diet / 1000) * niche_breadth dino_type)
      | Infinity \<Rightarrow> 25
      | NaN \<Rightarrow> 25)"

text \<open>
  Line 170: \<open>1 / carrying_capacity\<close> raises \<open>ZeroDivisionError\<close> on the carrying capacity
  \<open>0.0\<close> of an infinite mass.
\<close>

definition competition_index :: "pyfloat \<Rightarrow> string \<Rightarrow> error + real" where
  "competition_index mass diet =
     (case carrying_capacity mass of
        Inl e \<Rightarrow> Inl e
      | Inr (Float cc) \<Rightarrow>
          (case py_div 1 cc of
             Inl e \<Rightarrow> Inl e
           | Inr recip \<Rightarrow> Inr (min 25 (competition_intensity diet * recip * 1000)))
      | Inr Infinity \<Rightarrow> Inr 0
      | Inr NaN \<Rightarrow> Inr 25)"

definition stability_index :: "string \<Rightarrow> string \<Rightarrow> real" where
  "stability_index dino_type geological_period =
     min 20 ((niche_breadth dino_type * 5) + (ecological_context geological_period * 10))"

text \<open>\<open>raw_impact\<close> and \<open>impact_score\<close> of lines 176 and 179.\<close>

definition raw_impact :: "pyfloat \<Rightarrow> string \<Rightarrow> string \<Rightarrow> string \<Rightarrow> error + real" where
  "raw_impact mass diet dino_type geological_period =
     (case competition_index mass diet of
        Inl e \<Rightarrow> Inl e
      | Inr competition \<Rightarrow>
          Inr (resource_index mass diet geological_period
               + habitat_index mass diet dino_type
               + competition
               + stability_index dino_type geological_period))"

definition impact_score :: "pyfloat \<Rightarrow> string \<Rightarrow> string \<Rightarrow> string \<Rightarrow> error + real" where
  "impact_score mass diet dino_type geological_period =
     (case raw_impact mass diet dino_type geological_period of
        Inl e \<Rightarrow> Inl e
      | Inr raw \<Rightarrow> Inr (min 100 (max 5 (raw * 1.2))))"

subsection \<open>Categorisation and the result (lines 182 to 199)\<close>

text \<open>
  The symbols are kept as the bytes of the source file: each is a four-character string
  there, written here in UTF-8.
\<close>

definition emoji_minimal :: string where
  "emoji_minimal = [CHR 0xEF, CHR 0xA3, CHR 0xBF, CHR 0xC3, CHR 0xBC, CHR 0xC3, CHR 0xBC,
                    CHR 0xC2, CHR 0xA2]"

definition emoji_low :: string where
  "emoji_low = [CHR 0xEF, CHR 0xA3, CHR 0xBF, CHR 0xC3, CHR 0xBC, CHR 0xC3, CHR 0xBC,
                CHR 0xC2, CHR 0xB0]"

definition emoji_moderate :: string where
  "emoji_moderate = [CHR 0xEF, CHR 0xA3, CHR 0xBF, CHR 0xC3, CHR 0xBC, CHR 0xC3, CHR 0xBC,
                     CHR 0xE2, CHR 0x80, CHR 0xA0]"

definition emoji_high :: string where
  "emoji_high = [CHR 0xEF, CHR 0xA3, CHR 0xBF, CHR 0xC3, CHR 0xBC, CHR 0xC3, CHR 0xAE,
                 CHR 0xC2, CHR 0xA5]"

definition emoji_extreme :: string where
  "emoji_extreme = [CHR 0xEF, CHR 0xA3, CHR 0xBF, CHR 0xC3, CHR 0xBC, CHR 0xC3, CHR 0xAD,
                    CHR 0xC3, CHR 0x84]"

definition categorize :: "real \<Rightarrow> string \<times> string \<times> string" where
  "categorize s =
     (if s < 20 then (''Minimal Impact'', emoji_minimal, ''#00ff88'')
      else if s < 40 then (''Low Impact'', emoji_low, ''#ffaa00'')
      else if s < 65 then (''Moderate Impact'', emoji_moderate, ''#ff6600'')
      else if s < 85 then (''High Impact'', emoji_high, ''#ff4400'')
      else (''Extreme Impact'', emoji_extreme, ''#ff0000''))"

record impact_result =
  score :: real
  category :: string
  emoji :: string
  color :: string
  estimated_mass :: real

text \<open>
  Line 198: \<open>round(estimated_mass_kg, 0)\<close>. The rounding of NaN is NaN, which is no real
  number: the field is left unspecified there. It arises only from \<open>inf * 0.0\<close>, that is
  for a height of zero. An infinite mass never reaches line 198.
\<close>

definition round_mass :: "pyfloat \<Rightarrow> real" where
  "round_mass mass =
     (case mass of Float m \<Rightarrow> py_round m 0 | Infinity \<Rightarrow> undefined | NaN \<Rightarrow> undefined)"

definition predict_dinosaur_impact ::
  "real \<Rightarrow> real \<Rightarrow> string \<Rightarrow> string \<Rightarrow> string \<Rightarrow> real \<Rightarrow> real \<Rightarrow> error + impact_result" where
  "predict_dinosaur_impact length_m height_m diet dino_type geological_period
       start_time_mya end_time_mya =
     (case estimated_mass_kg_float dino_type length_m height_m of
        Inl e \<Rightarrow> Inl e
      | Inr mass \<Rightarrow>
          (case impact_score mass diet dino_type geological_period of
             Inl e \<Rightarrow> Inl e
           | Inr s \<Rightarrow>
               (case categorize s of
                  (cat, em, col) \<Rightarrow>
                    Inr \<lparr>score = py_round s 1, category = cat, emoji = em, color = col,
                         estimated_mass = round_mass mass\<rparr>)))"

subsection \<open>The mass estimation as the specification words it\<close>

text \<open>
  The specification describes step 1 as a body-type-specific multiplier with two exponents
  (one on the femur proxy, 8 percent of the length, one on the height), scaled by 1000,
  then the size-based corrections of the sauropod branch, then one clamp. The three
  constants of each body type are those of the source.
\<close>

definition spec_type_constants :: "string \<Rightarrow> real \<times> real \<times> real" where
  "spec_type_constants dino_type =
     (if dino_type = ''sauropod'' then (2.4, 2.6, 0.4)
      else if dino_type = ''large theropod'' then (3.2, 2.7, 0.6)
      else if dino_type = ''small theropod'' then (1.8, 2.5, 0.5)
      else if dino_type = ''ceratopsian'' then (2.8, 2.6, 0.55)
      else if dino_type = ''armoured dinosaur'' then (3.0, 2.65, 0.5)
      else if dino_type = ''euornithopod'' then (2.2, 2.55, 0.5)
      else (2.5, 2.6, 0.5))"




text \<open>
  The categorisation as the specification words it: thresholds at 20, 40, 65 and 85 map a
  score to one of five tiers.
\<close>

definition spec_category :: "real \<Rightarrow> string" where
  "spec_category s =
     (if s < 20 then ''Minimal Impact''
      else if s < 40 then ''Low Impact''
      else if s < 65 then ''Moderate Impact''
      else if s < 85 then ''High Impact''
      else ''Extreme Impact'')"

section \<open>Auxiliary facts\<close>

subsection \<open>Rounding\<close>

lemma round_half_even_cases:
  "round_half_even x = \<lfloor>x\<rfloor> \<or> round_half_even x = \<lfloor>x\<rfloor> + 1"
  by (simp add: round_half_even_def Let_def)

lemma round_half_even_lower: "x - 1 / 2 \<le> of_int (round_half_even x)"
  unfolding round_half_even_def Let_def by (auto; linarith)

lemma round_half_even_upper: "of_int (round_half_even x) \<le> x + 1 / 2"
  unfolding round_half_even_def Let_def by (auto; linarith)

lemma round_half_even_of_int [simp]: "round_half_even (of_int k) = k"
  by (simp add: round_half_even_def Let_def)

lemma round_half_even_unique:
  assumes "of_int k - 1 / 2 < x" and "x < of_int k + 1 / 2"
  shows "round_half_even x = k"
proof -
  have "of_int (round_half_even x) < (of_int k + 1 :: real)"
    using round_half_even_upper [of x] assms by linarith
  moreover have "(of_int k - 1 :: real) < of_int (round_half_even x)"
    using round_half_even_lower [of x] assms by linarith
  ultimately show ?thesis by linarith
qed

lemma round_half_even_mono:
  assumes "x \<le> y"
  shows "round_half_even x \<le> round_half_even y"
proof (cases "\<lfloor>x\<rfloor> = \<lfloor>y\<rfloor>")
  case True
  then show ?thesis
    using assms unfolding round_half_even_def Let_def by (auto; linarith)
next
  case False
  then have "\<lfloor>x\<rfloor> + 1 \<le> \<lfloor>y\<rfloor>"
    using floor_mono [OF assms] by linarith
  moreover have "round_half_even x \<le> \<lfloor>x\<rfloor> + 1"
    using round_half_even_cases [of x] by linarith
  moreover have "\<lfloor>y\<rfloor> \<le> round_half_even y"
    using round_half_even_cases [of y] by linarith
  ultimately show ?thesis by linarith
qed

lemma py_round_mono: "x \<le> y \<Longrightarrow> py_round x n \<le> py_round y n"
  unfolding py_round_def
  by (intro divide_right_mono of_int_le_iff [THEN iffD2] round_half_even_mono
        mult_right_mono) simp_all

lemma py_round_of_int: "py_round (of_int k / 10 ^ n) n = of_int k / 10 ^ n"
  by (simp add: py_round_def)


lemma py_round_unique:
  assumes "of_int k - 1 / 2 < x * 10 ^ n" and "x * 10 ^ n < of_int k + 1 / 2"
  shows "py_round x n = of_int k / 10 ^ n"
  by (simp add: py_round_def round_half_even_unique [OF assms])

lemma py_round_ge:
  assumes "of_int k / 10 ^ n \<le> x"
  shows "of_int k / 10 ^ n \<le> py_round x n"
  using py_round_mono [OF assms, of n] by (simp add: py_round_of_int)

lemma py_round_le:
  assumes "x \<le> of_int k / 10 ^ n"
  shows "py_round x n \<le> of_int k / 10 ^ n"
  using py_round_mono [OF assms, of n] by (simp add: py_round_of_int)

subsection \<open>Rational bounds on real powers\<close>

lemma powr_rat_le:
  assumes "0 \<le> x" and "0 < b" and "0 < q" and "x ^ p \<le> b ^ q"
  shows "x powr (real p / real q) \<le> b"
proof (cases "x = 0")
  case True
  then show ?thesis using assms by simp
next
  case False
  then have x: "0 < x" using assms by simp
  have "x powr (real p / real q) = (x ^ p) powr (1 / real q)"
    using x by (simp add: powr_powr flip: powr_realpow)
  also have "\<dots> \<le> (b ^ q) powr (1 / real q)"
    using assms x by (intro powr_mono2) simp_all
  also have "\<dots> = b"
    using assms by (simp add: powr_powr flip: powr_realpow)
  finally show ?thesis .
qed

lemma powr_rat_ge:
  assumes "0 < x" and "0 \<le> a" and "0 < q" and "a ^ q \<le> x ^ p"
  shows "a \<le> x powr (real p / real q)"
proof (cases "a = 0")
  case True
  then show ?thesis by simp
next
  case False
  then have a: "0 < a" using assms by simp
  have "a = (a ^ q) powr (1 / real q)"
    using assms a by (simp add: powr_powr flip: powr_realpow)
  also have "\<dots> \<le> (x ^ p) powr (1 / real q)"
    using assms a by (intro powr_mono2) simp_all
  also have "\<dots> = x powr (real p / real q)"
    using assms by (simp add: powr_powr flip: powr_realpow)
  finally show ?thesis .
qed

subsection \<open>Ranges of the factors and sub-indices\<close>

lemma base_mass_nonneg: "0 \<le> base_mass t l h"
  by (simp add: base_mass_def Let_def)

lemma min_mass_ge: "50 \<le> min_mass m"
  by (simp add: min_mass_def)

lemma estimated_mass_kg_ge: "50 \<le> estimated_mass_kg t l h"
  by (simp add: estimated_mass_kg_def min_mass_ge)

lemma carrying_capacity_Inr:
  assumes "50 \<le> m"
  shows "carrying_capacity (Float m) =
           Inr (Float ((if m > 20000 then 2000 else if m > 10000 then 3000
                        else if m > 5000 then 4000 else if m > 1000 then 5000 else 6000)
                       / m powr 0.6))"
  using assms by (simp add: carrying_capacity_def py_div_def)

lemma competition_index_Inr:
  assumes "50 \<le> m"
  shows "competition_index (Float m) d =
           Inr (min 25 (competition_intensity d
                        * (1 / ((if m > 20000 then 2000 else if m > 10000 then 3000
                                 else if m > 5000 then 4000 else if m > 1000 then 5000
                                 else 6000) / m powr 0.6))
                        * 1000))"
  using assms by (simp add: competition_index_def carrying_capacity_Inr py_div_def)

lemma competition_index_Infinity: "competition_index Infinity d = Inl ZeroDivisionError"
  by (simp add: competition_index_def carrying_capacity_def py_div_def)

lemma competition_intensity_pos: "0 < competition_intensity d"
  by (simp add: competition_intensity_def)


lemma competition_index_range:
  assumes "competition_index mass d = Inr c"
  shows "0 \<le> c \<and> c \<le> 25"
proof (cases mass)
  case (Float m)
  have ci: "0 \<le> competition_intensity d" using competition_intensity_pos [of d] by simp
  show ?thesis
    using assms ci unfolding Float
    by (auto simp add: competition_index_def carrying_capacity_def py_div_def
        split: if_splits)
next
  case Infinity
  then show ?thesis using assms by (simp add: competition_index_Infinity)
next
  case NaN
  then show ?thesis using assms by (simp add: competition_index_def carrying_capacity_def)
qed

lemma ecological_context_range:
  "0.85 \<le> ecological_context p \<and> ecological_context p \<le> 1.2"
  by (simp add: ecological_context_def period_factors_def dict_get_def)

lemma niche_breadth_range: "1.8 \<le> niche_breadth t \<and> niche_breadth t \<le> 3.5"
  by (simp add: niche_breadth_def)

lemma diet_factor_range:
  "1 \<le> dict_get diet_metabolic_factors d 1.5 \<and> dict_get diet_metabolic_factors d 1.5 \<le> 2.8"
  by (simp add: diet_metabolic_factors_def dict_get_def)

lemma resource_index_range:
  "0 \<le> resource_index mass d p \<and> resource_index mass d p \<le> 30"
proof -
  have "0 \<le> ecological_context p" using ecological_context_range [of p] by simp
  moreover have "0 \<le> dict_get diet_metabolic_factors d 1.5"
    using diet_factor_range [of d] by simp
  ultimately show ?thesis
    by (cases mass) (simp_all add: resource_index_def metabolic_demand_def)
qed

lemma home_range_factor_nonneg: "0 \<le> home_range_factor m d"
  by (simp add: home_range_factor_def)

lemma habitat_index_range:
  "0 \<le> habitat_index mass d t \<and> habitat_index mass d t \<le> 25"
proof -
  have "0 \<le> niche_breadth t" using niche_breadth_range [of t] by simp
  then show ?thesis
    using home_range_factor_nonneg by (cases mass) (simp_all add: habitat_index_def)
qed

lemma stability_index_range:
  "17.5 \<le> stability_index t p \<and> stability_index t p \<le> 20"
  using niche_breadth_range [of t] ecological_context_range [of p]
  by (simp add: stability_index_def)

lemma raw_impact_range:
  assumes "raw_impact mass d t p = Inr raw"
  shows "17.5 \<le> raw \<and> raw \<le> 100"
proof -
  obtain c where c: "competition_index mass d = Inr c"
    and raw: "raw = resource_index mass d p + habitat_index mass d t + c + stability_index t p"
    using assms by (auto simp add: raw_impact_def split: sum.splits)
  show ?thesis
    using competition_index_range [OF c] resource_index_range [of mass d p]
      habitat_index_range [of mass d t] stability_index_range [of t p]
    unfolding raw by simp
qed

lemma impact_score_range:
  assumes "impact_score mass d t p = Inr sc"
  shows "\<exists>raw. raw_impact mass d t p = Inr raw \<and> 21 \<le> raw * 1.2
           \<and> max 5 (raw * 1.2) = raw * 1.2 \<and> sc = min 100 (raw * 1.2)
           \<and> 21 \<le> sc \<and> sc \<le> 100"
proof -
  obtain raw where raw: "raw_impact mass d t p = Inr raw"
    and sc: "sc = min 100 (max 5 (raw * 1.2))"
    using assms by (auto simp add: impact_score_def split: sum.splits)
  have "17.5 \<le> raw" using raw_impact_range [OF raw] by simp
  then show ?thesis using raw sc by simp
qed


lemma impact_score_Infinity: "impact_score Infinity d t p = Inl ZeroDivisionError"
  by (simp add: impact_score_def raw_impact_def competition_index_Infinity)

lemma predict_Inr:
  assumes "estimated_mass_kg_float t l h = Inr (Float m)"
    and "impact_score (Float m) d t p = Inr sc"
  shows "predict_dinosaur_impact l h d t p s e =
           Inr \<lparr>score = py_round sc 1, category = fst (categorize sc),
                emoji = fst (snd (categorize sc)), color = snd (snd (categorize sc)),
                estimated_mass = py_round m 0\<rparr>"
  using assms by (simp add: predict_dinosaur_impact_def round_mass_def split: prod.splits)

subsection \<open>The mass within the double range\<close>

lemma float_max_bounds: "10 ^ 300 \<le> float_max \<and> float_max < 2 ^ 1024"
  by (simp add: float_max_def)

lemma py_pow_Float:
  assumes "0 \<le> x" and "x powr y \<le> float_max"
  shows "py_pow x y = Inr (Real (Float (x powr y)))"
  using assms by (simp add: py_pow_def)

lemma allometric_float_Float:
  assumes "0 \<le> femur" and "0 \<le> h"
    and "femur powr a \<le> float_max" and "h powr b \<le> float_max"
    and "k * femur powr a \<le> float_max"
    and "k * femur powr a * h powr b \<le> float_max"
    and "k * femur powr a * h powr b * 1000 \<le> float_max"
  shows "allometric_float k femur a h b = Inr (Real (Float (k * femur powr a * h powr b * 1000)))"
  using assms by (simp add: allometric_float_def py_pow_Float py_float_def)



lemma spec_type_constants_range:
  assumes "spec_type_constants t = (k, a, b)"
  shows "1.8 \<le> k \<and> k \<le> 3.2 \<and> 0 < a \<and> a \<le> 3 \<and> 0 < b \<and> b \<le> 3 / 5"
  using assms by (auto simp add: spec_type_constants_def split: if_splits)

lemma base_mass_float_Float:
  assumes "0 \<le> l" and "0 \<le> h"
    and R: "\<And>k a b. spec_type_constants t = (k, a, b) \<Longrightarrow>
          (l * 0.08) powr a \<le> float_max \<and> h powr b \<le> float_max
          \<and> k * (l * 0.08) powr a \<le> float_max
          \<and> k * (l * 0.08) powr a * h powr b \<le> float_max
          \<and> k * (l * 0.08) powr a * h powr b * 1000 * 1.3 \<le> float_max"
  shows "base_mass_float t l h = Inr (Real (Float (base_mass t l h)))"
proof -
  have al: "allometric_float k (l * 0.08) a h b
              = Inr (Real (Float (k * (l * 0.08) powr a * h powr b * 1000)))
            \<and> k * (l * 0.08) powr a * h powr b * 1000 * 1.3 \<le> float_max
            \<and> k * (l * 0.08) powr a * h powr b * 1000 * 1.1 \<le> float_max"
    if c: "spec_type_constants t = (k, a, b)" for k a b
  proof -
    let ?m = "k * (l * 0.08) powr a * h powr b * 1000"
    have nn: "0 \<le> ?m" using spec_type_constants_range [OF c] by simp
    have r: "(l * 0.08) powr a \<le> float_max" "h powr b \<le> float_max"
      "k * (l * 0.08) powr a \<le> float_max" "k * (l * 0.08) powr a * h powr b \<le> float_max"
      "?m * 1.3 \<le> float_max"
      using R [OF c] by simp_all
    have m1: "?m \<le> float_max" using r(5) nn by linarith
    have m11: "?m * 1.1 \<le> float_max" using r(5) nn by linarith
    have "allometric_float k (l * 0.08) a h b = Inr (Real (Float ?m))"
      using assms(1,2) r(1-4) m1 by (intro allometric_float_Float) simp_all
    then show ?thesis using r(5) m11 by simp
  qed
  consider (c1) "t = ''sauropod''" | (c2) "t = ''large theropod''" | (c3) "t = ''small theropod''" | (c4) "t = ''ceratopsian''" | (c5) "t = ''armoured dinosaur''" | (c6) "t = ''euornithopod''"
    | (c7) "t \<notin> {''sauropod'', ''large theropod'', ''small theropod'', ''ceratopsian'', ''armoured dinosaur'', ''euornithopod''}"
    by auto
  then show ?thesis
  proof cases
    case c1
    then have "spec_type_constants t = (2.4, 2.6, 0.4)"
      by (simp add: spec_type_constants_def)
    from al [OF this] show ?thesis
      using c1 by (simp add: base_mass_float_def base_mass_def Let_def py_float_def)
  next
    case c2
    then have "spec_type_constants t = (3.2, 2.7, 0.6)"
      by (simp add: spec_type_constants_def)
    from al [OF this] show ?thesis
      using c2 by (simp add: base_mass_float_def base_mass_def Let_def py_float_def)
  next
    case c3
    then have "spec_type_constants t = (1.8, 2.5, 0.5)"
      by (simp add: spec_type_constants_def)
    from al [OF this] show ?thesis
      using c3 by (simp add: base_mass_float_def base_mass_def Let_def py_float_def)
  next
    case c4
    then have "spec_type_constants t = (2.8, 2.6, 0.55)"
      by (simp add: spec_type_constants_def)
    from al [OF this] show ?thesis
      using c4 by (simp add: base_mass_float_def base_mass_def Let_def py_float_def)
  next
    case c5
    then have "spec_type_constants t = (3.0, 2.65, 0.5)"
      by (simp add: spec_type_constants_def)
    from al [OF this] show ?thesis
      using c5 by (simp add: base_mass_float_def base_mass_def Let_def py_float_def)
  next
    case c6
    then have "spec_type_constants t = (2.2, 2.55, 0.5)"
      by (simp add: spec_type_constants_def)
    from al [OF this] show ?thesis
      using c6 by (simp add: base_mass_float_def base_mass_def Let_def py_float_def)
  next
    case c7
    then have "spec_type_constants t = (2.5, 2.6, 0.5)"
      by (simp add: spec_type_constants_def)
    from al [OF this] show ?thesis
      using c7 by (simp add: base_mass_float_def base_mass_def Let_def py_float_def)
  qed
qed

lemma estimated_mass_kg_float_Float:
  assumes "base_mass_float t l h = Inr (Real (Float (base_mass t l h)))"
  shows "estimated_mass_kg_float t l h = Inr (Float (estimated_mass_kg t l h))"
  using assms
  by (simp add: estimated_mass_kg_float_def mass_constraints_def estimated_mass_kg_def)

lemma powr_le_power:
  fixes x B a :: real
  assumes "0 \<le> x" and "x \<le> B" and "1 \<le> B" and "0 \<le> a" and "a \<le> real n"
  shows "x powr a \<le> B ^ n"
proof -
  have "x powr a \<le> B powr a" using assms by (intro powr_mono2) simp_all
  also have "\<dots> \<le> B powr real n" using assms by (intro powr_mono) simp_all
  also have "\<dots> = B ^ n" using assms by (simp add: powr_realpow)
  finally show ?thesis .
qed

lemma products_below_float_max:
  fixes x y kx kxy fm :: real
  assumes "x \<le> 10 ^ 150" and "y \<le> 10 ^ 50" and "kx \<le> 4 * 10 ^ 150"
    and "kxy \<le> 4 * 10 ^ 150 * 10 ^ 50" and "10 ^ 300 \<le> fm"
  shows "x \<le> fm \<and> y \<le> fm \<and> kx \<le> fm \<and> kxy \<le> fm \<and> kxy * 1000 * 1.3 \<le> fm"
  using assms by simp

text \<open>Lengths and heights up to \<open>10 ^ 50\<close> keep every operation within the double range.\<close>

lemma base_mass_float_in_range:
  assumes "0 \<le> l" and "l \<le> 10 ^ 50" and "0 \<le> h" and "h \<le> 10 ^ 50"
  shows "base_mass_float t l h = Inr (Real (Float (base_mass t l h)))"
proof (rule base_mass_float_Float [OF assms(1,3)])
  fix k a b :: real
  assume c: "spec_type_constants t = (k, a, b)"
  note k = spec_type_constants_range [OF c]
  let ?X = "(l * 0.08) powr a" and ?H = "h powr b"
  have X: "?X \<le> 10 ^ 150"
    using powr_le_power [of "l * 0.08" "10 ^ 50" a 3] assms k by simp
  have H: "?H \<le> 10 ^ 50"
    using powr_le_power [of h "10 ^ 50" b 1] assms k by simp
  have kX: "k * ?X \<le> 4 * 10 ^ 150"
    using X k by (intro mult_mono) simp_all
  have kXH: "k * ?X * ?H \<le> 4 * 10 ^ 150 * 10 ^ 50"
    using X kX H k by (intro mult_mono) simp_all
  have f: "(10::real) ^ 300 \<le> float_max" using float_max_bounds by simp
  show "?X \<le> float_max \<and> ?H \<le> float_max \<and> k * ?X \<le> float_max
        \<and> k * ?X * ?H \<le> float_max \<and> k * ?X * ?H * 1000 * 1.3 \<le> float_max"
    by (rule products_below_float_max [OF X H kX kXH f])
qed

lemma estimated_mass_kg_float_in_range:
  assumes "0 \<le> l" and "l \<le> 10 ^ 50" and "0 \<le> h" and "h \<le> 10 ^ 50"
  shows "estimated_mass_kg_float t l h = Inr (Float (estimated_mass_kg t l h))"
  by (rule estimated_mass_kg_float_Float [OF base_mass_float_in_range [OF assms]])





subsection \<open>What a returned result tells about the mass\<close>

lemma allometric_float_value:
  assumes "allometric_float k femur a h b = Inr (Real (Float v))"
  shows "v = k * femur powr a * h powr b * 1000"
  using assms
  by (auto simp add: allometric_float_def py_pow_def py_float_def split: if_splits)

lemma allometric_float_not_NaN:
  assumes "0 < h"
  shows "allometric_float k femur a h b \<noteq> Inr (Real NaN)"
  using assms
  by (auto simp add: allometric_float_def py_pow_def py_float_def split: if_splits)

lemma py_mult_constant:
  assumes "c \<noteq> 0"
  shows "py_mult m (Real (Float c)) \<noteq> Real NaN \<or> m = Real NaN"
    and "py_mult m (Real (Float c)) = Real (Float v) \<Longrightarrow> \<exists>x. m = Real (Float x) \<and> v = x * c"
proof -
  show "py_mult m (Real (Float c)) \<noteq> Real NaN \<or> m = Real NaN"
  proof (cases m)
    case (Real f)
    then show ?thesis using assms by (cases f) (simp_all add: py_float_def)
  next
    case Complex
    then show ?thesis by simp
  qed
  show "\<exists>x. m = Real (Float x) \<and> v = x * c" if "py_mult m (Real (Float c)) = Real (Float v)"
  proof (cases m)
    case (Real f)
    then show ?thesis
      using assms that by (cases f) (auto simp add: py_float_def split: if_splits)
  next
    case Complex
    then show ?thesis using that by simp
  qed
qed

lemma base_mass_float_not_NaN:
  assumes "0 < h"
  shows "base_mass_float t l h \<noteq> Inr (Real NaN)"
proof (cases "t = ''sauropod''")
  case True
  show ?thesis
  proof
    assume nan: "base_mass_float t l h = Inr (Real NaN)"
    then obtain m where m: "allometric_float 2.4 (l * 0.08) 2.6 h 0.4 = Inr m"
      and r: "(if l > 25 then py_mult m (Real (Float 1.3))
               else if l > 20 then py_mult m (Real (Float 1.1)) else m) = Real NaN"
      using True by (auto simp add: base_mass_float_def Let_def split: sum.splits)
    have "m \<noteq> Real NaN" using m allometric_float_not_NaN [OF assms] by auto
    then show False
      using r py_mult_constant(1) [of "1.3" m] py_mult_constant(1) [of "1.1" m]
      by (auto split: if_splits)
  qed
next
  case False
  then show ?thesis
    using allometric_float_not_NaN [OF assms]
    by (simp add: base_mass_float_def Let_def)
qed

lemma base_mass_float_value:
  assumes "base_mass_float t l h = Inr (Real (Float v))"
  shows "v = base_mass t l h"
proof (cases "t = ''sauropod''")
  case True
  obtain m where m: "allometric_float 2.4 (l * 0.08) 2.6 h 0.4 = Inr m"
    and r: "(if l > 25 then py_mult m (Real (Float 1.3))
             else if l > 20 then py_mult m (Real (Float 1.1)) else m) = Real (Float v)"
    using True assms by (auto simp add: base_mass_float_def Let_def split: sum.splits)
  obtain x where x: "m = Real (Float x)"
    and v: "v = (if l > 25 then x * 1.3 else if l > 20 then x * 1.1 else x)"
    using r py_mult_constant(2) [of "1.3" m v] py_mult_constant(2) [of "1.1" m v]
    by (auto split: if_splits)
  have "x = 2.4 * (l * 0.08) powr 2.6 * h powr 0.4 * 1000"
    using m x allometric_float_value by blast
  then show ?thesis using True v by (simp add: base_mass_def Let_def)
next
  case False
  then show ?thesis
    using assms
    by (auto simp add: base_mass_float_def base_mass_def Let_def split: if_splits
        dest!: allometric_float_value)
qed

lemma estimated_mass_kg_float_value:
  assumes "estimated_mass_kg_float t l h = Inr (Float m)"
  shows "m = estimated_mass_kg t l h"
proof -
  obtain b where b: "base_mass_float t l h = Inr b" and c: "mass_constraints b = Inr (Float m)"
    using assms by (auto simp add: estimated_mass_kg_float_def split: sum.splits)
  obtain v where v: "b = Real (Float v)" and m: "m = min_mass (square_cube v)"
    using c by (auto simp add: mass_constraints_def split: pynum.splits pyfloat.splits)
  show ?thesis
    using base_mass_float_value [of t l h v] b v m by (simp add: estimated_mass_kg_def)
qed

lemma estimated_mass_kg_float_cases:
  assumes "0 < h" and "estimated_mass_kg_float t l h = Inr mass"
  shows "mass = Infinity \<or> mass = Float (estimated_mass_kg t l h)"
proof (cases mass)
  case (Float m)
  then show ?thesis using assms(2) estimated_mass_kg_float_value by blast
next
  case Infinity
  then show ?thesis by simp
next
  case NaN
  then have "base_mass_float t l h = Inr (Real NaN)"
    using assms(2)
    by (auto simp add: estimated_mass_kg_float_def mass_constraints_def
        split: sum.splits pynum.splits pyfloat.splits)
  then show ?thesis using base_mass_float_not_NaN [OF assms(1)] by simp
qed

lemma predict_Inr_elim:
  assumes "0 < h" and "predict_dinosaur_impact l h d t p s e = Inr r"
  shows "\<exists>sc. estimated_mass_kg_float t l h = Inr (Float (estimated_mass_kg t l h))
            \<and> impact_score (Float (estimated_mass_kg t l h)) d t p = Inr sc
            \<and> r = \<lparr>score = py_round sc 1, category = fst (categorize sc),
                    emoji = fst (snd (categorize sc)), color = snd (snd (categorize sc)),
                    estimated_mass = py_round (estimated_mass_kg t l h) 0\<rparr>"
proof -
  obtain mass sc where mass: "estimated_mass_kg_float t l h = Inr mass"
    and sc: "impact_score mass d t p = Inr sc"
    and r: "r = \<lparr>score = py_round sc 1, category = fst (categorize sc),
                  emoji = fst (snd (categorize sc)), color = snd (snd (categorize sc)),
                  estimated_mass = round_mass mass\<rparr>"
    using assms(2)
    by (auto simp add: predict_dinosaur_impact_def split: sum.splits prod.splits)
  have "mass \<noteq> Infinity" using sc by (auto simp add: impact_score_Infinity)
  then have "mass = Float (estimated_mass_kg t l h)"
    using estimated_mass_kg_float_cases [OF assms(1) mass] by simp
  then show ?thesis using mass sc r by (simp add: round_mass_def)
qed

subsection \<open>The clamp in one pass\<close>




subsection \<open>Monotonicity of the mass in the length\<close>




lemma estimated_mass_kg_unclamped:
  assumes "50 \<le> base_mass t l h" and "base_mass t l h \<le> 30000"
  shows "estimated_mass_kg t l h = base_mass t l h"
  using assms by (simp add: estimated_mass_kg_def min_mass_def square_cube_def)





subsection \<open>Evaluation at concrete inputs\<close>

text \<open>
  A real power with a rational exponent is enclosed between two decimals by comparing
  integer powers; the mass and the score of a concrete input follow by interval
  arithmetic, and both roundings are then determined.
\<close>

lemma mult_bounds:
  fixes a b :: real
  assumes "alo \<le> a" and "a \<le> ahi" and "blo \<le> b" and "b \<le> bhi"
    and "0 \<le> alo" and "0 \<le> blo"
  shows "alo * blo \<le> a * b \<and> a * b \<le> ahi * bhi"
  using assms by (intro conjI mult_mono) simp_all

lemma powr_rat_bounds:
  assumes "0 < mlo" and "mlo \<le> m" and "m \<le> mhi" and "0 \<le> lo" and "0 < hi" and "0 < q"
    and "lo ^ q \<le> mlo ^ p" and "mhi ^ p \<le> hi ^ q"
  shows "lo \<le> m powr (real p / real q) \<and> m powr (real p / real q) \<le> hi"
proof
  have "lo \<le> mlo powr (real p / real q)"
    using assms by (intro powr_rat_ge) simp_all
  also have "\<dots> \<le> m powr (real p / real q)"
    using assms by (intro powr_mono2) simp_all
  finally show "lo \<le> m powr (real p / real q)" .
  have "m powr (real p / real q) \<le> mhi powr (real p / real q)"
    using assms by (intro powr_mono2) simp_all
  also have "\<dots> \<le> hi"
    using assms by (intro powr_rat_le) simp_all
  finally show "m powr (real p / real q) \<le> hi" .
qed

lemma trex_femur_power:
  "(0.89563762::real) \<le> (24 / 25) powr (27 / 10) \<and> (24 / 25) powr (27 / 10) \<le> (0.89563763::real)"
  using powr_rat_ge [of "24 / 25" "0.89563762" 10 27] powr_rat_le [of "24 / 25" "0.89563763" 10 27]
  by (simp add: power_divide)

lemma trex_height_power:
  "(2.2973967::real) \<le> 4 powr (3 / 5) \<and> 4 powr (3 / 5) \<le> (2.29739671::real)"
  using powr_rat_ge [of 4 "2.2973967" 5 3] powr_rat_le [of 4 "2.29739671" 5 3]
  by (simp add: power_divide)

lemma trex_base_mass:
  "6584.43 \<le> base_mass ''large theropod'' 12 4 \<and> base_mass ''large theropod'' 12 4 \<le> 6584.44"
proof -
  let ?A = "(24 / 25 :: real) powr (27 / 10)"
  let ?B = "(4::real) powr (3 / 5)"
  have eq: "base_mass ''large theropod'' 12 4 = 3200 * (?A * ?B)"
    by (simp add: base_mass_def Let_def)
  have "0.89563762 * 2.2973967 \<le> ?A * ?B \<and> ?A * ?B \<le> 0.89563763 * 2.29739671"
    using trex_femur_power trex_height_power by (intro mult_bounds) simp_all
  then show ?thesis unfolding eq by simp
qed

lemma trex_mass:
  "6584.43 \<le> estimated_mass_kg ''large theropod'' 12 4
   \<and> estimated_mass_kg ''large theropod'' 12 4 \<le> 6584.44"
proof -
  have "estimated_mass_kg ''large theropod'' 12 4 = base_mass ''large theropod'' 12 4"
    using trex_base_mass by (intro estimated_mass_kg_unclamped) simp_all
  then show ?thesis using trex_base_mass by simp
qed

lemma trex_score:
  fixes m :: real
  assumes "6584 \<le> m" and "m \<le> 6585"
  shows "\<exists>sc. impact_score (Float m) ''carnivorous'' ''large theropod'' ''Late Cretaceous'' = Inr sc
              \<and> 54.25 < sc \<and> sc < 54.35"
proof -
  have P: "700 \<le> m powr (3 / 4) \<and> m powr (3 / 4) \<le> 800"
    using powr_rat_bounds [of 6584 m 6585 700 800 4 3] assms by simp
  have Q: "100 \<le> m powr (3 / 5)"
    using powr_rat_bounds [of 6584 m 6585 100 1000 5 3] assms by simp
  have res: "resource_index (Float m) ''carnivorous'' ''Late Cretaceous'' = m powr (3 / 4) * (119 / 500000)"
    using P by (simp add: resource_index_def metabolic_demand_def diet_metabolic_factors_def
        ecological_context_def period_factors_def dict_get_def)
  have hab: "habitat_index (Float m) ''carnivorous'' ''large theropod'' = m powr (3 / 4) * (7 / 100000)"
    using P by (simp add: habitat_index_def home_range_factor_def niche_breadth_def)
  have comp: "competition_index (Float m) ''carnivorous'' = Inr 25"
    using Q assms by (simp add: competition_index_Inr competition_intensity_def)
  have stab: "stability_index ''large theropod'' ''Late Cretaceous'' = 20"
    by (simp add: stability_index_def niche_breadth_def ecological_context_def
        period_factors_def dict_get_def)
  have raw: "raw_impact (Float m) ''carnivorous'' ''large theropod'' ''Late Cretaceous''
             = Inr (m powr (3 / 4) * (119 / 500000) + m powr (3 / 4) * (7 / 100000) + 25 + 20)"
    by (simp add: raw_impact_def res hab comp stab)
  have "impact_score (Float m) ''carnivorous'' ''large theropod'' ''Late Cretaceous''
        = Inr ((m powr (3 / 4) * (119 / 500000) + m powr (3 / 4) * (7 / 100000) + 25 + 20) * 1.2)"
    using P by (simp add: impact_score_def raw)
  moreover have "54.25 < (m powr (3 / 4) * (119 / 500000) + m powr (3 / 4) * (7 / 100000) + 25 + 20) * 1.2"
    using P by simp
  moreover have "(m powr (3 / 4) * (119 / 500000) + m powr (3 / 4) * (7 / 100000) + 25 + 20) * 1.2 < 54.35"
    using P by simp
  ultimately show ?thesis by blast
qed

lemma predict_value:
  assumes "estimated_mass_kg_float t l h = Inr (Float (estimated_mass_kg t l h))"
    and "impact_score (Float (estimated_mass_kg t l h)) d t p = Inr sc"
    and "of_int k - 1 / 2 < sc * 10" and "sc * 10 < of_int k + 1 / 2"
    and "of_int j - 1 / 2 < estimated_mass_kg t l h"
    and "estimated_mass_kg t l h < of_int j + 1 / 2"
  shows "predict_dinosaur_impact l h d t p s e =
           Inr \<lparr>score = of_int k / 10, category = fst (categorize sc),
                emoji = fst (snd (categorize sc)), color = snd (snd (categorize sc)),
                estimated_mass = of_int j\<rparr>"
proof -
  have "py_round sc 1 = of_int k / 10 ^ 1"
    using assms(3,4) by (intro py_round_unique) simp_all
  moreover have "py_round (estimated_mass_kg t l h) 0 = of_int j / 10 ^ 0"
    using assms(5,6) by (intro py_round_unique) simp_all
  ultimately show ?thesis
    by (simp add: predict_Inr [OF assms(1,2)])
qed

lemma trex_prediction:
  "predict_dinosaur_impact 12 4 ''carnivorous'' ''large theropod'' ''Late Cretaceous'' s e =
     Inr \<lparr>score = 54.3, category = ''Moderate Impact'', emoji = emoji_moderate,
          color = ''#ff6600'', estimated_mass = 6584\<rparr>"
proof -
  let ?m = "estimated_mass_kg ''large theropod'' 12 4"
  have m: "6584.43 \<le> ?m" "?m \<le> 6584.44" using trex_mass by simp_all
  obtain sc where sc:
    "impact_score (Float ?m) ''carnivorous'' ''large theropod'' ''Late Cretaceous'' = Inr sc"
    "54.25 < sc" "sc < 54.35"
    using trex_score [of ?m] m by auto
  have cat: "categorize sc = (''Moderate Impact'', emoji_moderate, ''#ff6600'')"
    using sc(2,3) by (simp add: categorize_def)
  have fl: "estimated_mass_kg_float ''large theropod'' 12 4 = Inr (Float ?m)"
    by (rule estimated_mass_kg_float_in_range) simp_all
  show ?thesis
    using predict_value [OF fl sc(1), of 543 6584 s e] sc m
    by (simp add: cat)
qed

lemma bronto_femur_power:
  "(3.85304545::real) \<le> (42 / 25) powr (13 / 5) \<and> (42 / 25) powr (13 / 5) \<le> (3.85304546::real)"
  using powr_rat_ge [of "42 / 25" "3.85304545" 5 13] powr_rat_le [of "42 / 25" "3.85304546" 5 13]
  by (simp add: power_divide)

lemma bronto_height_power:
  "(2.70192007::real) \<le> 12 powr (2 / 5) \<and> 12 powr (2 / 5) \<le> (2.70192008::real)"
  using powr_rat_ge [of 12 "2.70192007" 5 2] powr_rat_le [of 12 "2.70192008" 5 2]
  by (simp add: power_divide)

lemma bronto_base_mass:
  "27484.03 \<le> base_mass ''sauropod'' 21 12 \<and> base_mass ''sauropod'' 21 12 \<le> 27484.04"
proof -
  let ?A = "(42 / 25 :: real) powr (13 / 5)"
  let ?B = "(12::real) powr (2 / 5)"
  have eq: "base_mass ''sauropod'' 21 12 = 2640 * (?A * ?B)"
    by (simp add: base_mass_def Let_def)
  have "3.85304545 * 2.70192007 \<le> ?A * ?B \<and> ?A * ?B \<le> 3.85304546 * 2.70192008"
    using bronto_femur_power bronto_height_power by (intro mult_bounds) simp_all
  then show ?thesis unfolding eq by simp
qed

lemma bronto_mass:
  "27484.03 \<le> estimated_mass_kg ''sauropod'' 21 12
   \<and> estimated_mass_kg ''sauropod'' 21 12 \<le> 27484.04"
proof -
  have "estimated_mass_kg ''sauropod'' 21 12 = base_mass ''sauropod'' 21 12"
    using bronto_base_mass by (intro estimated_mass_kg_unclamped) simp_all
  then show ?thesis using bronto_base_mass by simp
qed

lemma bronto_score:
  fixes m :: real
  assumes "27484 \<le> m" and "m \<le> 27485"
  shows "\<exists>sc. impact_score (Float m) ''herbivorous'' ''sauropod'' ''Late Jurassic'' = Inr sc
              \<and> 54.25 < sc \<and> sc < 54.35"
proof -
  have P: "2130 \<le> m powr (3 / 4) \<and> m powr (3 / 4) \<le> 2200"
    using powr_rat_bounds [of 27484 m 27485 2130 2200 4 3] assms by simp
  have H: "765 \<le> m powr (13 / 20) \<and> m powr (13 / 20) \<le> 800"
    using powr_rat_bounds [of 27484 m 27485 765 800 20 13] assms by simp
  have Q: "100 \<le> m powr (3 / 5)"
    using powr_rat_bounds [of 27484 m 27485 100 1000 5 3] assms by simp
  have res: "resource_index (Float m) ''herbivorous'' ''Late Jurassic'' = m powr (3 / 4) * (9 / 100000)"
    using P by (simp add: resource_index_def metabolic_demand_def diet_metabolic_factors_def
        ecological_context_def period_factors_def dict_get_def)
  have hab: "habitat_index (Float m) ''herbivorous'' ''sauropod'' = m powr (13 / 20) * (7 / 312500)"
    using H by (simp add: habitat_index_def home_range_factor_def niche_breadth_def)
  have comp: "competition_index (Float m) ''herbivorous'' = Inr 25"
    using Q assms by (simp add: competition_index_Inr competition_intensity_def)
  have stab: "stability_index ''sauropod'' ''Late Jurassic'' = 20"
    by (simp add: stability_index_def niche_breadth_def ecological_context_def
        period_factors_def dict_get_def)
  let ?raw = "m powr (3 / 4) * (9 / 100000) + m powr (13 / 20) * (7 / 312500) + 25 + 20"
  have raw: "raw_impact (Float m) ''herbivorous'' ''sauropod'' ''Late Jurassic'' = Inr ?raw"
    by (simp add: raw_impact_def res hab comp stab)
  have "impact_score (Float m) ''herbivorous'' ''sauropod'' ''Late Jurassic'' = Inr (?raw * 1.2)"
    using P H by (simp add: impact_score_def raw)
  moreover have "54.25 < ?raw * 1.2" using P H by simp
  moreover have "?raw * 1.2 < 54.35" using P H by simp
  ultimately show ?thesis by blast
qed

lemma bronto_prediction:
  "predict_dinosaur_impact 21 12 ''herbivorous'' ''sauropod'' ''Late Jurassic'' s e =
     Inr \<lparr>score = 54.3, category = ''Moderate Impact'', emoji = emoji_moderate,
          color = ''#ff6600'', estimated_mass = 27484\<rparr>"
proof -
  let ?m = "estimated_mass_kg ''sauropod'' 21 12"
  have m: "27484.03 \<le> ?m" "?m \<le> 27484.04" using bronto_mass by simp_all
  obtain sc where sc:
    "impact_score (Float ?m) ''herbivorous'' ''sauropod'' ''Late Jurassic'' = Inr sc"
    "54.25 < sc" "sc < 54.35"
    using bronto_score [of ?m] m by auto
  have cat: "categorize sc = (''Moderate Impact'', emoji_moderate, ''#ff6600'')"
    using sc(2,3) by (simp add: categorize_def)
  have fl: "estimated_mass_kg_float ''sauropod'' 21 12 = Inr (Float ?m)"
    by (rule estimated_mass_kg_float_in_range) simp_all
  show ?thesis
    using predict_value [OF fl sc(1), of 543 27484 s e] sc m
    by (simp add: cat)
qed

lemma boundary_femur_power:
  "(0.02821812::real) \<le> (6 / 25) powr (5 / 2) \<and> (6 / 25) powr (5 / 2) \<le> (0.02821813::real)"
  using powr_rat_ge [of "6 / 25" "0.02821812" 2 5] powr_rat_le [of "6 / 25" "0.02821813" 2 5]
  by (simp add: power_divide)

lemma boundary_height_power:
  "(3.60555127::real) \<le> 13 powr (1 / 2) \<and> 13 powr (1 / 2) \<le> (3.60555128::real)"
  using powr_rat_ge [of 13 "3.60555127" 2 1] powr_rat_le [of 13 "3.60555128" 2 1]
  by (simp add: power_divide)

lemma boundary_base_mass:
  "183.13 \<le> base_mass ''small theropod'' 3 13 \<and> base_mass ''small theropod'' 3 13 \<le> 183.14"
proof -
  let ?A = "(6 / 25 :: real) powr (5 / 2)"
  let ?B = "(13::real) powr (1 / 2)"
  have eq: "base_mass ''small theropod'' 3 13 = 1800 * (?A * ?B)"
    by (simp add: base_mass_def Let_def)
  have "0.02821812 * 3.60555127 \<le> ?A * ?B \<and> ?A * ?B \<le> 0.02821813 * 3.60555128"
    using boundary_femur_power boundary_height_power by (intro mult_bounds) simp_all
  then show ?thesis unfolding eq by simp
qed

lemma boundary_mass:
  "183.13 \<le> estimated_mass_kg ''small theropod'' 3 13
   \<and> estimated_mass_kg ''small theropod'' 3 13 \<le> 183.14"
proof -
  have "estimated_mass_kg ''small theropod'' 3 13 = base_mass ''small theropod'' 3 13"
    using boundary_base_mass by (intro estimated_mass_kg_unclamped) simp_all
  then show ?thesis using boundary_base_mass by simp
qed

lemma boundary_score:
  fixes m :: real
  assumes "183.13 \<le> m" and "m \<le> 183.14"
  shows "\<exists>sc. impact_score (Float m) ''carnivorous'' ''small theropod'' ''Late Triassic'' = Inr sc
              \<and> 39.95 < sc \<and> sc < 40"
proof -
  have P: "49 \<le> m powr (3 / 4) \<and> m powr (3 / 4) \<le> 50"
    using powr_rat_bounds [of "183.13" m "183.14" 49 50 4 3] assms by (simp add: power_divide)
  have Q: "22.78 \<le> m powr (3 / 5) \<and> m powr (3 / 5) \<le> 22.79"
    using powr_rat_bounds [of "183.13" m "183.14" "22.78" "22.79" 5 3] assms
    by (simp add: power_divide)
  have res: "resource_index (Float m) ''carnivorous'' ''Late Triassic'' = m powr (3 / 4) * (21 / 62500)"
    using P by (simp add: resource_index_def metabolic_demand_def diet_metabolic_factors_def
        ecological_context_def period_factors_def dict_get_def)
  have hab: "habitat_index (Float m) ''carnivorous'' ''small theropod'' = m powr (3 / 4) * (1 / 25000)"
    using P by (simp add: habitat_index_def home_range_factor_def niche_breadth_def)
  have comp: "competition_index (Float m) ''carnivorous'' = Inr (m powr (3 / 5) * (7 / 12))"
    using Q assms by (simp add: competition_index_Inr competition_intensity_def)
  have stab: "stability_index ''small theropod'' ''Late Triassic'' = 20"
    by (simp add: stability_index_def niche_breadth_def ecological_context_def
        period_factors_def dict_get_def)
  let ?raw = "m powr (3 / 4) * (21 / 62500) + m powr (3 / 4) * (1 / 25000)
              + m powr (3 / 5) * (7 / 12) + 20"
  have raw: "raw_impact (Float m) ''carnivorous'' ''small theropod'' ''Late Triassic'' = Inr ?raw"
    by (simp add: raw_impact_def res hab comp stab)
  have "impact_score (Float m) ''carnivorous'' ''small theropod'' ''Late Triassic'' = Inr (?raw * 1.2)"
    using P Q by (simp add: impact_score_def raw)
  moreover have "39.95 < ?raw * 1.2" using P Q by simp
  moreover have "?raw * 1.2 < 40" using P Q by simp
  ultimately show ?thesis by blast
qed

lemma boundary_prediction:
  "predict_dinosaur_impact 3 13 ''carnivorous'' ''small theropod'' ''Late Triassic'' s e =
     Inr \<lparr>score = 40, category = ''Low Impact'', emoji = emoji_low,
          color = ''#ffaa00'', estimated_mass = 183\<rparr>"
proof -
  let ?m = "estimated_mass_kg ''small theropod'' 3 13"
  have m: "183.13 \<le> ?m" "?m \<le> 183.14" using boundary_mass by simp_all
  obtain sc where sc:
    "impact_score (Float ?m) ''carnivorous'' ''small theropod'' ''Late Triassic'' = Inr sc"
    "39.95 < sc" "sc < 40"
    using boundary_score [of ?m] m by auto
  have cat: "categorize sc = (''Low Impact'', emoji_low, ''#ffaa00'')"
    using sc(2,3) by (simp add: categorize_def)
  have fl: "estimated_mass_kg_float ''small theropod'' 3 13 = Inr (Float ?m)"
    by (rule estimated_mass_kg_float_in_range) simp_all
  show ?thesis
    using predict_value [OF fl sc(1), of 400 183 s e] sc m
    by (simp add: cat)
qed


subsection \<open>Beyond the double range\<close>










section \<open>The claims\<close>

text \<open>
  C1. For positive length and height, and any diet, body type, period and start and end
  times, the result that \<open>predict_dinosaur_impact\<close> returns has a score in the interval
  from 5 to 100 and an estimated mass of at least 50 kg.
\<close>

theorem predict_score_and_mass_bounds:
  assumes "0 < length_m" and "0 < height_m"
    and "predict_dinosaur_impact length_m height_m diet dino_type geological_period
           start_time_mya end_time_mya = Inr r"
  shows "5 \<le> score r \<and> score r \<le> 100 \<and> 50 \<le> estimated_mass r"
proof -
  let ?m = "estimated_mass_kg dino_type length_m height_m"
  obtain sc where sc: "impact_score (Float ?m) diet dino_type geological_period = Inr sc"
    and r: "score r = py_round sc 1" "estimated_mass r = py_round ?m 0"
    using predict_Inr_elim [OF assms(2,3)] by auto
  have range: "21 \<le> sc" "sc \<le> 100" using impact_score_range [OF sc] by auto
  have "of_int 50 / 10 ^ 1 \<le> sc" using range(1) by simp
  then have lo: "5 \<le> py_round sc 1" using py_round_ge [of 50 1 sc] by simp
  have "sc \<le> of_int 1000 / 10 ^ 1" using range(2) by simp
  then have hi: "py_round sc 1 \<le> 100" using py_round_le [of sc 1000 1] by simp
  have "of_int 50 / 10 ^ 0 \<le> ?m" using estimated_mass_kg_ge [of dino_type length_m height_m] by simp
  then have mass: "50 \<le> py_round ?m 0" using py_round_ge [of 50 0 ?m] by simp
  show ?thesis using r lo hi mass by simp
qed

theorem predict_score_and_mass_bounds_witness:
  "(0::real) < 12 \<and> (0::real) < 4
   \<and> predict_dinosaur_impact 12 4 ''carnivorous'' ''large theropod'' ''Late Cretaceous'' 68 66
       = Inr \<lparr>score = 54.3, category = ''Moderate Impact'', emoji = emoji_moderate,
              color = ''#ff6600'', estimated_mass = 6584\<rparr>
   \<and> (5::real) \<le> 54.3 \<and> (54.3::real) \<le> 100 \<and> (50::real) \<le> 6584"
  using predict_score_and_mass_bounds [OF _ _ trex_prediction [of 68 66]]
    trex_prediction [of 68 66]
  by simp

text \<open>
  C2. The claim has the returned category agree with bucketing the returned score at the
  thresholds 20, 40, 65 and 85. The code buckets the score before rounding (lines 182 to
  191) and returns the score rounded to one decimal (line 194): for a small theropod of
  length 3 and height 13, carnivorous, of the Late Triassic, the score before rounding
  lies between 39.95 and 40, so the returned category is "Low Impact" while the returned
  score is 40.0, which the thresholds put in "Moderate Impact".
\<close>

theorem category_disagrees_with_returned_score:
  "predict_dinosaur_impact 3 13 ''carnivorous'' ''small theropod'' ''Late Triassic'' 220 210
     = Inr \<lparr>score = 40, category = ''Low Impact'', emoji = emoji_low,
            color = ''#ffaa00'', estimated_mass = 183\<rparr>
   \<and> spec_category 40 = ''Moderate Impact''"
  by (simp add: boundary_prediction spec_category_def)




text \<open>
  C4. For length 12, height 4, carnivorous, large theropod, Late Cretaceous, and any
  start and end times, the claim puts the estimated mass between 7000 and 9000 kg. The
  code returns 6584 kg.
\<close>

theorem trex_mass_below_target:
  "\<exists>r. predict_dinosaur_impact 12 4 ''carnivorous'' ''large theropod'' ''Late Cretaceous''
          start_time_mya end_time_mya = Inr r
       \<and> estimated_mass r = 6584 \<and> estimated_mass r < 7000"
  by (simp add: trex_prediction)

text \<open>
  C5. For length 21, height 12, herbivorous, sauropod, Late Jurassic, and any start and
  end times, the claim puts the estimated mass between 15000 and 20000 kg. The code
  returns 27484 kg.
\<close>

theorem bronto_mass_above_target:
  "\<exists>r. predict_dinosaur_impact 21 12 ''herbivorous'' ''sauropod'' ''Late Jurassic''
          start_time_mya end_time_mya = Inr r
       \<and> estimated_mass r = 27484 \<and> 20000 < estimated_mass r"
  by (simp add: bronto_prediction)





text \<open>
  C8. The result does not depend on the start and end times: two calls that agree on
  length, height, diet, body type and period return the same value, hence the same
  score, category, emoji, color and estimated mass, whatever the four times are.
\<close>

theorem predict_ignores_times:
  "predict_dinosaur_impact length_m height_m diet dino_type geological_period s1 e1 =
   predict_dinosaur_impact length_m height_m diet dino_type geological_period s2 e2"
  by (simp add: predict_dinosaur_impact_def)

text \<open>
  C10. The niche breadth is at least 1.8 and the temporal multiplier at least 0.85, so
  the stability sub-index is at least 17.5. Whenever a call with positive length and
  height returns a result, the resource and habitat sub-indices of its mass are
  non-negative and the competition sub-index is computed and non-negative; so 1.2 times
  the raw impact is at least 21, the lower clamp at 5 leaves it unchanged, the returned
  score is at least 21 and the category is not "Minimal Impact".
\<close>

theorem score_at_least_21:
  assumes "0 < length_m" and "0 < height_m"
    and "predict_dinosaur_impact length_m height_m diet dino_type geological_period
           start_time_mya end_time_mya = Inr r"
  shows "1.8 \<le> niche_breadth dino_type
    \<and> 0.85 \<le> ecological_context geological_period
    \<and> 17.5 \<le> stability_index dino_type geological_period
    \<and> (\<exists>mass raw.
          estimated_mass_kg_float dino_type length_m height_m = Inr mass
          \<and> 0 \<le> resource_index mass diet geological_period
          \<and> 0 \<le> habitat_index mass diet dino_type
          \<and> (\<exists>c. competition_index mass diet = Inr c \<and> 0 \<le> c)
          \<and> raw_impact mass diet dino_type geological_period = Inr raw
          \<and> 21 \<le> raw * 1.2
          \<and> max 5 (raw * 1.2) = raw * 1.2)
    \<and> 21 \<le> score r
    \<and> category r \<noteq> ''Minimal Impact''"
proof -
  let ?m = "estimated_mass_kg dino_type length_m height_m"
  obtain sc where m: "estimated_mass_kg_float dino_type length_m height_m = Inr (Float ?m)"
    and sc: "impact_score (Float ?m) diet dino_type geological_period = Inr sc"
    and r: "score r = py_round sc 1" "category r = fst (categorize sc)"
    using predict_Inr_elim [OF assms(2,3)] by auto
  obtain raw where raw:
    "raw_impact (Float ?m) diet dino_type geological_period = Inr raw"
    "21 \<le> raw * 1.2" "max 5 (raw * 1.2) = raw * 1.2" "21 \<le> sc"
    using impact_score_range [OF sc] by auto
  obtain c where c: "competition_index (Float ?m) diet = Inr c"
    using raw(1) by (auto simp add: raw_impact_def split: sum.splits)
  have c0: "0 \<le> c" using competition_index_range [OF c] by simp
  have "of_int 210 / 10 ^ 1 \<le> sc" using raw(4) by simp
  then have lo: "21 \<le> py_round sc 1" using py_round_ge [of 210 1 sc] by simp
  have cat: "fst (categorize sc) \<noteq> ''Minimal Impact''"
    using raw(4) by (simp add: categorize_def)
  have sub: "\<exists>mass raw.
          estimated_mass_kg_float dino_type length_m height_m = Inr mass
          \<and> 0 \<le> resource_index mass diet geological_period
          \<and> 0 \<le> habitat_index mass diet dino_type
          \<and> (\<exists>c. competition_index mass diet = Inr c \<and> 0 \<le> c)
          \<and> raw_impact mass diet dino_type geological_period = Inr raw
          \<and> 21 \<le> raw * 1.2
          \<and> max 5 (raw * 1.2) = raw * 1.2"
    using m raw(1,2,3) c c0 resource_index_range habitat_index_range by blast
  show ?thesis
    using niche_breadth_range [of dino_type] ecological_context_range [of geological_period]
      stability_index_range [of dino_type geological_period] sub r lo cat
    by simp
qed

theorem score_at_least_21_witness:
  "(0::real) < 21 \<and> (0::real) < 12
   \<and> predict_dinosaur_impact 21 12 ''herbivorous'' ''sauropod'' ''Late Jurassic'' 156 146
       = Inr \<lparr>score = 54.3, category = ''Moderate Impact'', emoji = emoji_moderate,
              color = ''#ff6600'', estimated_mass = 27484\<rparr>
   \<and> 17.5 \<le> stability_index ''sauropod'' ''Late Jurassic''
   \<and> (21::real) \<le> 54.3
   \<and> ''Moderate Impact'' \<noteq> ''Minimal Impact''"
  using score_at_least_21 [OF _ _ bronto_prediction [of 156 146]]
    bronto_prediction [of 156 146]
  by simp

end
